theory Spec2Isabelle
  imports Complex_Main "HOL-Library.Multiset" "HOL-Library.Stream"
begin

section \<open>The Heisenberg model of spyns: energy and estimator evaluation\<close>

text \<open>
  This theory embeds \<^verbatim>\<open>src/spyns/model/heisenberg.py\<close>. Conventions:
  \<^item> a numpy \<^verbatim>\<open>float\<close> is a \<open>real\<close>: every statement about energies is a statement of
    exact real arithmetic, the idealisation under which the spec states its sums and
    invariances (rounding is not modelled);
  \<^item> an integer table entry or index is an \<open>int\<close> (the spec declares them as sequences
    of integers; the array dtypes are declared in \<^verbatim>\<open>spyns.data\<close>, outside the sources);
  \<^item> a one-dimensional numpy array is a list; a \<^verbatim>\<open>(n, 3)\<close> array is a list of triples;
  \<^item> an exception is a value \<open>Inl e\<close> of a sum type;
  \<^item> every function that receives the mutable \<^verbatim>\<open>data\<close> object takes the data and
    returns the data it leaves behind together with its result or exception;
  \<^item> the process-wide generator \<^verbatim>\<open>np.random\<close> is a stream of draws from \<open>[0, 1)\<close>,
    passed in and returned advanced.
\<close>

subsection \<open>Data model\<close>

datatype error = IndexError | ValueError

type_synonym vec3 = "real \<times> real \<times> real"

text \<open>
  \<^verbatim>\<open>HeisenbergState\<close> has the fields \<^verbatim>\<open>x\<close>, \<^verbatim>\<open>y\<close>, \<^verbatim>\<open>z\<close>; they are named
  \<open>spin_x\<close>, \<open>spin_y\<close>, \<open>spin_z\<close> here, and those of \<^verbatim>\<open>NeighborStates\<close>
  \<open>neighbors_x\<close>, \<open>neighbors_y\<close>, \<open>neighbors_z\<close>, since a record field is a constant.
\<close>

record HeisenbergState =
  spin_x :: "real list"
  spin_y :: "real list"
  spin_z :: "real list"

record LookupTables =
  number_sites :: int
  number_sublattices :: int
  sublattice_table :: "int list"
  neighbors_count :: "int list"
  neighbors_lookup_index :: "int list"
  neighbors_table :: "int list"
  interaction_parameters_table :: "real list"

record Estimators =
  energy :: "real list"
  spin_vector :: "vec3 list"

record SimulationData =
  state :: HeisenbergState
  lookup_tables :: LookupTables
  estimators :: Estimators

record NeighborStates =
  neighbors_x :: "real list"
  neighbors_y :: "real list"
  neighbors_z :: "real list"
  interaction_parameters :: "real list"

subsection \<open>Computations on the data: result or exception, and the data left behind\<close>

type_synonym ('s, 'a) comp = "'s \<Rightarrow> (error + 'a) \<times> 's"

definition return :: "'a \<Rightarrow> ('s, 'a) comp" where
  "return v = (\<lambda>d. (Inr v, d))"

definition lift :: "error + 'a \<Rightarrow> ('s, 'a) comp" where
  "lift r = (\<lambda>d. (r, d))"

definition read :: "('s \<Rightarrow> error + 'a) \<Rightarrow> ('s, 'a) comp" where
  "read f = (\<lambda>d. (f d, d))"

definition bind :: "('s, 'a) comp \<Rightarrow> ('a \<Rightarrow> ('s, 'b) comp) \<Rightarrow> ('s, 'b) comp" where
  "bind m f = (\<lambda>d. case m d of (Inl e, d') \<Rightarrow> (Inl e, d') | (Inr v, d') \<Rightarrow> f v d')"

subsection \<open>The numpy operations the module uses\<close>

text \<open>\<^verbatim>\<open>a[i]\<close> with an integer: a negative index counts from the end, an index outside
  \<open>[-len, len)\<close> raises \<^verbatim>\<open>IndexError\<close>.\<close>

definition np_index :: "'a list \<Rightarrow> int \<Rightarrow> error + 'a" where
  "np_index a i =
     (let n = int (length a); j = (if i < 0 then i + n else i)
      in if 0 \<le> j \<and> j < n then Inr (a ! nat j) else Inl IndexError)"

text \<open>\<^verbatim>\<open>a[start:stop]\<close>: never raises; negative bounds count from the end and both
  bounds are clipped to the array.\<close>

definition slice_bound :: "nat \<Rightarrow> int \<Rightarrow> nat" where
  "slice_bound n b = (if b < 0 then nat (max (b + int n) 0) else min (nat b) n)"

definition np_slice :: "'a list \<Rightarrow> int \<Rightarrow> int \<Rightarrow> 'a list" where
  "np_slice a start stop =
     (let lo = slice_bound (length a) start; hi = slice_bound (length a) stop
      in take (hi - lo) (drop lo a))"

text \<open>\<^verbatim>\<open>a[indices]\<close> with an integer array: a copy of the addressed elements, or
  \<^verbatim>\<open>IndexError\<close> when one index is out of range.\<close>

fun np_take :: "'a list \<Rightarrow> int list \<Rightarrow> error + 'a list" where
  "np_take a [] = Inr []"
| "np_take a (i # is) =
     (case np_index a i of
        Inl e \<Rightarrow> Inl e
      | Inr v \<Rightarrow> (case np_take a is of Inl e \<Rightarrow> Inl e | Inr vs \<Rightarrow> Inr (v # vs)))"

text \<open>\<^verbatim>\<open>a[mask]\<close> with a boolean array: the elements where the mask holds;
  \<^verbatim>\<open>IndexError\<close> when the mask's length is not the array's.\<close>

definition np_mask :: "'a list \<Rightarrow> bool list \<Rightarrow> error + 'a list" where
  "np_mask a m =
     (if length m = length a then Inr (map fst (filter snd (zip a m))) else Inl IndexError)"

text \<open>An elementwise binary operation on two one-dimensional arrays, with numpy's
  broadcasting: equal lengths, or one operand of length one; \<^verbatim>\<open>ValueError\<close> otherwise.\<close>

definition np_binop :: "(real \<Rightarrow> real \<Rightarrow> real) \<Rightarrow> real list \<Rightarrow> real list \<Rightarrow> error + real list" where
  "np_binop f a b =
     (if length a = length b then Inr (map2 f a b)
      else if length a = 1 then Inr (map (f (hd a)) b)
      else if length b = 1 then Inr (map (\<lambda>u. f u (hd b)) a)
      else Inl ValueError)"

text \<open>\<^verbatim>\<open>range(n)\<close>: empty when \<open>n \<le> 0\<close>.\<close>

definition py_range :: "int \<Rightarrow> int list" where
  "py_range n = map int [0..<nat n]"

text \<open>\<^verbatim>\<open>np.zeros(shape=(n, 3))\<close>: \<^verbatim>\<open>ValueError\<close> for a negative dimension.\<close>

definition np_zeros3 :: "int \<Rightarrow> error + vec3 list" where
  "np_zeros3 n = (if n < 0 then Inl ValueError else Inr (replicate (nat n) (0, 0, 0)))"

subsection \<open>Reading neighbours and spins\<close>

definition lookup_neighbor_states :: "int \<Rightarrow> (SimulationData, NeighborStates) comp" where
  "lookup_neighbor_states site_index =
     bind (read (\<lambda>d. np_index (neighbors_count (lookup_tables d)) site_index)) (\<lambda>count.
     bind (read (\<lambda>d. np_index (neighbors_lookup_index (lookup_tables d)) site_index)) (\<lambda>lookup_start.
     let lookup_end = lookup_start + count in
     bind (read (\<lambda>d. Inr (np_slice (neighbors_table (lookup_tables d)) lookup_start lookup_end))) (\<lambda>neighbor_indices.
     bind (read (\<lambda>d. np_take (spin_x (state d)) neighbor_indices)) (\<lambda>neighbors_states_x.
     bind (read (\<lambda>d. np_take (spin_y (state d)) neighbor_indices)) (\<lambda>neighbors_states_y.
     bind (read (\<lambda>d. np_take (spin_z (state d)) neighbor_indices)) (\<lambda>neighbors_states_z.
     bind (read (\<lambda>d. Inr (np_slice (interaction_parameters_table (lookup_tables d)) lookup_start lookup_end))) (\<lambda>params.
     return \<lparr>neighbors_x = neighbors_states_x, neighbors_y = neighbors_states_y,
             neighbors_z = neighbors_states_z, interaction_parameters = params\<rparr>)))))))"

definition get_site_spin_vector :: "int \<Rightarrow> (SimulationData, vec3) comp" where
  "get_site_spin_vector site_index =
     bind (read (\<lambda>d. np_index (spin_x (state d)) site_index)) (\<lambda>sx.
     bind (read (\<lambda>d. np_index (spin_y (state d)) site_index)) (\<lambda>sy.
     bind (read (\<lambda>d. np_index (spin_z (state d)) site_index)) (\<lambda>sz.
     return (sx, sy, sz))))"

subsection \<open>Energies\<close>

text \<open>\<^verbatim>\<open>np.sum(J * (s[0] * x + s[1] * y + s[2] * z))\<close>: a scalar times an array is
  elementwise, the sums and the product of arrays broadcast.\<close>

definition compute_energy_of_spin_vector_at_site :: "vec3 \<Rightarrow> int \<Rightarrow> (SimulationData, real) comp" where
  "compute_energy_of_spin_vector_at_site site_spin site_index =
     bind (lookup_neighbor_states site_index) (\<lambda>neighbor_states.
       case site_spin of (s0, s1, s2) \<Rightarrow>
         bind (lift (np_binop (+) (map ((*) s0) (neighbors_x neighbor_states))
                                  (map ((*) s1) (neighbors_y neighbor_states)))) (\<lambda>xy.
         bind (lift (np_binop (+) xy (map ((*) s2) (neighbors_z neighbor_states)))) (\<lambda>xyz.
         bind (lift (np_binop (*) (interaction_parameters neighbor_states) xyz)) (\<lambda>terms.
         return (sum_list terms)))))"

definition compute_site_energy :: "int \<Rightarrow> (SimulationData, real) comp" where
  "compute_site_energy site_index =
     bind (get_site_spin_vector site_index) (\<lambda>site_spin.
     bind (compute_energy_of_spin_vector_at_site site_spin site_index) (\<lambda>energy.
     return energy))"

text \<open>The loop of \<^verbatim>\<open>compute_total_energy\<close>: the sites still to visit and the running
  total.\<close>

fun total_energy_loop :: "int list \<Rightarrow> real \<Rightarrow> (SimulationData, real) comp" where
  "total_energy_loop [] total_energy d = (Inr total_energy, d)"
| "total_energy_loop (site_index # rest) total_energy d =
     (case compute_site_energy site_index d of
        (Inl e, d') \<Rightarrow> (Inl e, d')
      | (Inr site_energy, d') \<Rightarrow> total_energy_loop rest (total_energy + site_energy) d')"

definition compute_total_energy :: "(SimulationData, real) comp" where
  "compute_total_energy =
     bind (read (\<lambda>d. Inr (number_sites (lookup_tables d)))) (\<lambda>n.
     bind (total_energy_loop (py_range n) 0) (\<lambda>total_energy.
     return (total_energy / 2)))"

subsection \<open>Sublattice spin sums and the estimators\<close>

text \<open>The loop of \<^verbatim>\<open>sum_spin_vectors_within_sublattices\<close>: the sublattices still to
  visit and the local array \<^verbatim>\<open>spin_vector\<close>, one row of which each round assigns.\<close>

fun sublattice_loop :: "int list \<Rightarrow> vec3 list \<Rightarrow> (SimulationData, vec3 list) comp" where
  "sublattice_loop [] spin_vec d = (Inr spin_vec, d)"
| "sublattice_loop (sublattice # rest) spin_vec d =
     (let mask = map (\<lambda>t. t = sublattice) (sublattice_table (lookup_tables d)) in
      case np_mask (spin_x (state d)) mask of
        Inl e \<Rightarrow> (Inl e, d)
      | Inr mx \<Rightarrow>
     (case np_mask (spin_y (state d)) mask of
        Inl e \<Rightarrow> (Inl e, d)
      | Inr my \<Rightarrow>
     (case np_mask (spin_z (state d)) mask of
        Inl e \<Rightarrow> (Inl e, d)
      | Inr mz \<Rightarrow>
     (case np_index spin_vec sublattice of
        Inl e \<Rightarrow> (Inl e, d)
      | Inr _ \<Rightarrow>
          sublattice_loop rest
            (spin_vec[nat sublattice := (sum_list mx, sum_list my, sum_list mz)]) d))))"

definition sum_spin_vectors_within_sublattices :: "(SimulationData, vec3 list) comp" where
  "sum_spin_vectors_within_sublattices =
     bind (read (\<lambda>d. np_zeros3 (number_sublattices (lookup_tables d)))) (\<lambda>spin_vec.
     bind (read (\<lambda>d. Inr (number_sublattices (lookup_tables d)))) (\<lambda>n.
     sublattice_loop (py_range n) spin_vec))"

text \<open>\<^verbatim>\<open>data.estimators.energy[0] = v\<close>: an in-place write, \<^verbatim>\<open>IndexError\<close> on an
  empty array.\<close>

definition set_energy :: "real \<Rightarrow> (SimulationData, unit) comp" where
  "set_energy v = (\<lambda>d.
     if energy (estimators d) = [] then (Inl IndexError, d)
     else (Inr (), d\<lparr>estimators := (estimators d)\<lparr>energy := (energy (estimators d))[0 := v]\<rparr>\<rparr>))"

text \<open>\<^verbatim>\<open>data.estimators.spin_vector[:, :] = rows\<close>: an in-place write of every row;
  the assigned rows are broadcast to the shape of the target (as many rows, or one row
  repeated), \<^verbatim>\<open>ValueError\<close> otherwise.\<close>

definition set_spin_vector :: "vec3 list \<Rightarrow> (SimulationData, unit) comp" where
  "set_spin_vector rows = (\<lambda>d.
     let target = length (spin_vector (estimators d)) in
     if length rows = target then
       (Inr (), d\<lparr>estimators := (estimators d)\<lparr>spin_vector := rows\<rparr>\<rparr>)
     else if length rows = 1 then
       (Inr (), d\<lparr>estimators := (estimators d)\<lparr>spin_vector := replicate target (hd rows)\<rparr>\<rparr>)
     else (Inl ValueError, d))"

definition save_full_state :: "(SimulationData, unit) comp" where
  "save_full_state =
     bind compute_total_energy (\<lambda>total_energy.
     bind (set_energy total_energy) (\<lambda>_.
     bind sum_spin_vectors_within_sublattices (\<lambda>spin_sums.
     set_spin_vector spin_sums)))"

subsection \<open>Notions used to state the properties\<close>

text \<open>The dot product of two spin vectors, and the spin vector stored at a site.\<close>

definition dot :: "vec3 \<Rightarrow> vec3 \<Rightarrow> real" where
  "dot u v = (case u of (u0, u1, u2) \<Rightarrow> case v of (v0, v1, v2) \<Rightarrow> u0 * v0 + u1 * v1 + u2 * v2)"

definition spin_at :: "SimulationData \<Rightarrow> nat \<Rightarrow> vec3" where
  "spin_at d k = (spin_x (state d) ! k, spin_y (state d) ! k, spin_z (state d) ! k)"

text \<open>The block of a site in the flattened tables: the pairs of a neighbour and its
  coupling, from the site's start offset, as many as its neighbour count.\<close>

definition neighbor_block :: "SimulationData \<Rightarrow> nat \<Rightarrow> (int \<times> real) list" where
  "neighbor_block d i =
     (let t = lookup_tables d
      in take (nat (neighbors_count t ! i))
           (drop (nat (neighbors_lookup_index t ! i))
              (zip (neighbors_table t) (interaction_parameters_table t))))"

text \<open>The shape invariants of the spec's data model (section 3): one entry per site in
  the state arrays, in the counts and in the offsets; couplings aligned with the
  neighbours; every block inside the flattened tables; every neighbour a site.\<close>

definition well_formed :: "SimulationData \<Rightarrow> bool" where
  "well_formed d =
     (let t = lookup_tables d; n = nat (number_sites t)
      in 0 \<le> number_sites t \<and>
         length (spin_x (state d)) = n \<and> length (spin_y (state d)) = n \<and>
         length (spin_z (state d)) = n \<and>
         length (neighbors_count t) = n \<and> length (neighbors_lookup_index t) = n \<and>
         length (interaction_parameters_table t) = length (neighbors_table t) \<and>
         (\<forall>(start, count) \<in> set (zip (neighbors_lookup_index t) (neighbors_count t)).
            0 \<le> start \<and> 0 \<le> count \<and> start + count \<le> int (length (neighbors_table t))) \<and>
         (\<forall>j \<in> set (neighbors_table t). 0 \<le> j \<and> j < number_sites t))"

text \<open>The energy of a spin vector \<open>s\<close> against the block of site \<open>i\<close>.\<close>

definition block_energy :: "vec3 \<Rightarrow> SimulationData \<Rightarrow> nat \<Rightarrow> real" where
  "block_energy s d i = (\<Sum>(j, J) \<leftarrow> neighbor_block d i. J * dot s (spin_at d (nat j)))"

text \<open>The listed bonds: one entry \<open>(i, j, J)\<close> for every neighbour \<open>j\<close> that site \<open>i\<close>
  lists with coupling \<open>J\<close>, duplicates kept (a site can list the same neighbour once per
  periodic image).\<close>

type_synonym bond = "int \<times> int \<times> real"

definition bonds :: "SimulationData \<Rightarrow> bond list" where
  "bonds d =
     concat (map (\<lambda>i. map (\<lambda>(j, J). (int i, j, J)) (neighbor_block d i))
               [0..<nat (number_sites (lookup_tables d))])"

definition bond_energy :: "SimulationData \<Rightarrow> bond \<Rightarrow> real" where
  "bond_energy d b = (case b of (i, j, J) \<Rightarrow> J * dot (spin_at d (nat i)) (spin_at d (nat j)))"

definition reverse_bond :: "bond \<Rightarrow> bond" where
  "reverse_bond b = (case b of (i, j, J) \<Rightarrow> (j, i, J))"

text \<open>The symmetry invariant in the spec's words: if site A lists site B with coupling
  J, then B lists A with the same J.\<close>

definition bond_symmetry_invariant :: "SimulationData \<Rightarrow> bool" where
  "bond_symmetry_invariant d = (\<forall>b \<in> set (bonds d). reverse_bond b \<in> set (bonds d))"

text \<open>The undirected bonds, each taken once: from the listing of its lower endpoint.\<close>

definition undirected_bonds :: "SimulationData \<Rightarrow> bond list" where
  "undirected_bonds d = filter (\<lambda>(i, j, J). i \<le> j) (bonds d)"

text \<open>The symmetry with multiplicities: every listing occurs as often as its reverse.\<close>

definition bonds_balanced :: "SimulationData \<Rightarrow> bool" where
  "bonds_balanced d = (mset (map reverse_bond (bonds d)) = mset (bonds d))"

text \<open>The bonds between distinct sites, each once, and the listings of a site by itself.\<close>

definition proper_bonds :: "SimulationData \<Rightarrow> bond list" where
  "proper_bonds d = filter (\<lambda>(i, j, J). i < j) (bonds d)"

definition self_bonds :: "SimulationData \<Rightarrow> bond list" where
  "self_bonds d = filter (\<lambda>(i, j, J). i = j) (bonds d)"

subsection \<open>Small lattices\<close>

text \<open>Two sites joined by one ferromagnetic bond, both spins along x (the hand-built
  lattice of the spec's section 8).\<close>

definition pair_data :: SimulationData where
  "pair_data =
     \<lparr>state = \<lparr>spin_x = [1, 1], spin_y = [0, 0], spin_z = [0, 0]\<rparr>,
      lookup_tables = \<lparr>number_sites = 2, number_sublattices = 2, sublattice_table = [0, 1],
        neighbors_count = [1, 1], neighbors_lookup_index = [0, 1], neighbors_table = [1, 0],
        interaction_parameters_table = [-1, -1]\<rparr>,
      estimators = \<lparr>energy = [0], spin_vector = [(0, 0, 0), (0, 0, 0)]\<rparr>\<rparr>"

text \<open>One site that lists itself (its own periodic image) with coupling 1.\<close>

definition self_bond_data :: SimulationData where
  "self_bond_data =
     \<lparr>state = \<lparr>spin_x = [1], spin_y = [0], spin_z = [0]\<rparr>,
      lookup_tables = \<lparr>number_sites = 1, number_sublattices = 1, sublattice_table = [0],
        neighbors_count = [1], neighbors_lookup_index = [0], neighbors_table = [0],
        interaction_parameters_table = [1]\<rparr>,
      estimators = \<lparr>energy = [0], spin_vector = [(0, 0, 0)]\<rparr>\<rparr>"

text \<open>Two sites; site 0 lists site 1 twice, site 1 lists site 0 once, all with
  coupling 1.\<close>

definition double_listing_data :: SimulationData where
  "double_listing_data =
     \<lparr>state = \<lparr>spin_x = [1, 1], spin_y = [0, 0], spin_z = [0, 0]\<rparr>,
      lookup_tables = \<lparr>number_sites = 2, number_sublattices = 1, sublattice_table = [0, 0],
        neighbors_count = [2, 1], neighbors_lookup_index = [0, 2], neighbors_table = [1, 1, 0],
        interaction_parameters_table = [1, 1, 1]\<rparr>,
      estimators = \<lparr>energy = [0], spin_vector = [(0, 0, 0)]\<rparr>\<rparr>"

text \<open>The two-site lattice with a state of one site only: the arrays of the state are
  shorter than the tables say.\<close>

definition truncated_state_data :: SimulationData where
  "truncated_state_data =
     \<lparr>state = \<lparr>spin_x = [1], spin_y = [0], spin_z = [0]\<rparr>,
      lookup_tables = \<lparr>number_sites = 2, number_sublattices = 2, sublattice_table = [0, 1],
        neighbors_count = [1, 1], neighbors_lookup_index = [0, 1], neighbors_table = [1, 0],
        interaction_parameters_table = [-1, -1]\<rparr>,
      estimators = \<lparr>energy = [0], spin_vector = [(0, 0, 0), (0, 0, 0)]\<rparr>\<rparr>"


section \<open>Auxiliary facts\<close>

lemmas eval_defs = compute_total_energy_def compute_site_energy_def
  compute_energy_of_spin_vector_at_site_def get_site_spin_vector_def lookup_neighbor_states_def
  py_range_def np_index_def np_slice_def slice_bound_def np_binop_def Let_def
  bind_def read_def lift_def return_def upt_conv_Cons

lemma bind_read [simp]:
  "bind (read f) g d = (case f d of Inl e \<Rightarrow> (Inl e, d) | Inr v \<Rightarrow> g v d)"
  by (simp add: bind_def read_def split: sum.splits)

lemma bind_lift [simp]:
  "bind (lift r) g d = (case r of Inl e \<Rightarrow> (Inl e, d) | Inr v \<Rightarrow> g v d)"
  by (simp add: bind_def lift_def split: sum.splits)

lemma return_apply [simp]: "return v d = (Inr v, d)"
  by (simp add: return_def)

lemma bind_apply_Inr: "m d = (Inr v, d') \<Longrightarrow> bind m f d = f v d'"
  by (simp add: bind_def)

lemma bind_apply_Inl: "m d = (Inl e, d') \<Longrightarrow> bind m f d = (Inl e, d')"
  by (simp add: bind_def)

lemma np_index_nat: "i < length a \<Longrightarrow> np_index a (int i) = Inr (a ! i)"
  by (simp add: np_index_def)

lemma np_slice_block:
  "0 \<le> start \<Longrightarrow> 0 \<le> cnt \<Longrightarrow> start + cnt \<le> int (length a) \<Longrightarrow>
   np_slice a start (start + cnt) = take (nat cnt) (drop (nat start) a)"
proof -
  assume a: "0 \<le> start" "0 \<le> cnt" "start + cnt \<le> int (length a)"
  then have 1: "slice_bound (length a) start = nat start"
    by (simp add: slice_bound_def)
  from a have 2: "slice_bound (length a) (start + cnt) = nat start + nat cnt"
    by (auto simp: slice_bound_def nat_add_distrib min_def)
  show ?thesis by (simp add: np_slice_def 1 2)
qed

lemma np_take_in_range:
  "\<forall>j \<in> set js. 0 \<le> j \<and> j < int (length a) \<Longrightarrow> np_take a js = Inr (map (\<lambda>j. a ! nat j) js)"
  by (induction js) (simp_all add: np_index_def)

lemma np_binop_same: "length a = length b \<Longrightarrow> np_binop f a b = Inr (map2 f a b)"
  by (simp add: np_binop_def)

lemma sum_terms:
  "length js = length ps \<Longrightarrow>
   sum_list (map2 (*) ps (map2 (+) (map2 (+) (map ((*) a) (map X js)) (map ((*) b) (map Y js)))
                                     (map ((*) c) (map Z js))))
   = (\<Sum>(j, J) \<leftarrow> zip js ps. J * (a * X j + b * Y j + c * Z j :: real))"
  by (induction js ps rule: list_induct2) simp_all

lemma well_formed_block:
  assumes "well_formed d" "i < nat (number_sites (lookup_tables d))"
  shows "0 \<le> neighbors_lookup_index (lookup_tables d) ! i"
    and "0 \<le> neighbors_count (lookup_tables d) ! i"
    and "neighbors_lookup_index (lookup_tables d) ! i + neighbors_count (lookup_tables d) ! i
           \<le> int (length (neighbors_table (lookup_tables d)))"
proof -
  let ?t = "lookup_tables d"
  from assms have len: "i < length (zip (neighbors_lookup_index ?t) (neighbors_count ?t))"
    by (simp add: well_formed_def Let_def)
  then have "zip (neighbors_lookup_index ?t) (neighbors_count ?t) ! i
               \<in> set (zip (neighbors_lookup_index ?t) (neighbors_count ?t))"
    by (rule nth_mem)
  moreover from len have "zip (neighbors_lookup_index ?t) (neighbors_count ?t) ! i
      = (neighbors_lookup_index ?t ! i, neighbors_count ?t ! i)"
    by simp
  ultimately have "(neighbors_lookup_index ?t ! i, neighbors_count ?t ! i)
               \<in> set (zip (neighbors_lookup_index ?t) (neighbors_count ?t))"
    by simp
  with assms(1) have "0 \<le> neighbors_lookup_index ?t ! i \<and> 0 \<le> neighbors_count ?t ! i \<and>
     neighbors_lookup_index ?t ! i + neighbors_count ?t ! i \<le> int (length (neighbors_table ?t))"
    unfolding well_formed_def Let_def by blast
  then show "0 \<le> neighbors_lookup_index ?t ! i" "0 \<le> neighbors_count ?t ! i"
    "neighbors_lookup_index ?t ! i + neighbors_count ?t ! i \<le> int (length (neighbors_table ?t))"
    by simp_all
qed

lemma well_formed_lengths:
  assumes "well_formed d"
  shows "length (spin_x (state d)) = nat (number_sites (lookup_tables d))"
    and "length (spin_y (state d)) = nat (number_sites (lookup_tables d))"
    and "length (spin_z (state d)) = nat (number_sites (lookup_tables d))"
    and "length (neighbors_count (lookup_tables d)) = nat (number_sites (lookup_tables d))"
    and "length (neighbors_lookup_index (lookup_tables d)) = nat (number_sites (lookup_tables d))"
    and "length (interaction_parameters_table (lookup_tables d))
           = length (neighbors_table (lookup_tables d))"
    and "0 \<le> number_sites (lookup_tables d)"
  using assms by (simp_all add: well_formed_def Let_def)

lemma well_formed_neighbors:
  assumes "well_formed d" "j \<in> set (neighbors_table (lookup_tables d))"
  shows "0 \<le> j" and "j < number_sites (lookup_tables d)"
  using assms by (simp_all add: well_formed_def Let_def)

lemma lookup_neighbor_states_well_formed:
  assumes wf: "well_formed d" and i: "i < nat (number_sites (lookup_tables d))"
  shows "lookup_neighbor_states (int i) d =
     (Inr \<lparr>neighbors_x = map (\<lambda>j. spin_x (state d) ! nat j) (map fst (neighbor_block d i)),
           neighbors_y = map (\<lambda>j. spin_y (state d) ! nat j) (map fst (neighbor_block d i)),
           neighbors_z = map (\<lambda>j. spin_z (state d) ! nat j) (map fst (neighbor_block d i)),
           interaction_parameters = map snd (neighbor_block d i)\<rparr>, d)"
proof -
  let ?t = "lookup_tables d"
  let ?s = "neighbors_lookup_index ?t ! i" and ?c = "neighbors_count ?t ! i"
  let ?js = "take (nat ?c) (drop (nat ?s) (neighbors_table ?t))"
  let ?ps = "take (nat ?c) (drop (nat ?s) (interaction_parameters_table ?t))"
  note L = well_formed_lengths [OF wf] and B = well_formed_block [OF wf i]
  have c: "np_index (neighbors_count ?t) (int i) = Inr ?c"
    using i L by (simp add: np_index_nat)
  have s: "np_index (neighbors_lookup_index ?t) (int i) = Inr ?s"
    using i L by (simp add: np_index_nat)
  have js: "np_slice (neighbors_table ?t) ?s (?s + ?c) = ?js"
    using B by (simp add: np_slice_block)
  have ps: "np_slice (interaction_parameters_table ?t) ?s (?s + ?c) = ?ps"
    using B L by (simp add: np_slice_block)
  have rng: "\<forall>j \<in> set ?js. 0 \<le> j \<and> j < int (nat (number_sites ?t))"
  proof
    fix j assume "j \<in> set ?js"
    then have "j \<in> set (neighbors_table ?t)"
      by (meson in_set_dropD in_set_takeD)
    with well_formed_neighbors [OF wf] L(7) show "0 \<le> j \<and> j < int (nat (number_sites ?t))"
      by simp
  qed
  have tx: "np_take (spin_x (state d)) ?js = Inr (map (\<lambda>j. spin_x (state d) ! nat j) ?js)"
    using rng L by (simp add: np_take_in_range)
  have ty: "np_take (spin_y (state d)) ?js = Inr (map (\<lambda>j. spin_y (state d) ! nat j) ?js)"
    using rng L by (simp add: np_take_in_range)
  have tz: "np_take (spin_z (state d)) ?js = Inr (map (\<lambda>j. spin_z (state d) ! nat j) ?js)"
    using rng L by (simp add: np_take_in_range)
  have fst_b: "map fst (neighbor_block d i) = ?js"
    using L by (simp add: neighbor_block_def Let_def take_map [symmetric] drop_map [symmetric])
  have snd_b: "map snd (neighbor_block d i) = ?ps"
    using L by (simp add: neighbor_block_def Let_def take_map [symmetric] drop_map [symmetric])
  show ?thesis
    unfolding lookup_neighbor_states_def fst_b snd_b
    by (simp add: c s js ps tx ty tz Let_def)
qed

lemma frame_return: "snd (return v d) = d"
  by (simp add: return_def)

lemma frame_read: "snd (read f d) = d"
  by (simp add: read_def)

lemma frame_lift: "snd (lift r d) = d"
  by (simp add: lift_def)

lemma frame_bind:
  assumes "\<And>d. snd (m d) = d" and "\<And>v d. snd (f v d) = d"
  shows "snd (bind m f d) = d"
proof (cases "m d")
  case (Pair r d')
  with assms(1) [of d] have "d' = d" by simp
  with Pair assms(2) show ?thesis
    by (cases r) (simp_all add: bind_def)
qed

lemma frame_lookup_neighbor_states: "snd (lookup_neighbor_states i d) = d"
  unfolding lookup_neighbor_states_def Let_def
  by (intro frame_bind frame_read frame_return)

lemma frame_get_site_spin_vector: "snd (get_site_spin_vector i d) = d"
  unfolding get_site_spin_vector_def
  by (intro frame_bind frame_read frame_return)

lemma frame_compute_energy_of_spin_vector_at_site:
  "snd (compute_energy_of_spin_vector_at_site s i d) = d"
  unfolding compute_energy_of_spin_vector_at_site_def
  by (cases s) (auto intro!: frame_bind frame_lift frame_return frame_lookup_neighbor_states)

lemma frame_compute_site_energy: "snd (compute_site_energy i d) = d"
  unfolding compute_site_energy_def
  by (intro frame_bind frame_return frame_get_site_spin_vector
        frame_compute_energy_of_spin_vector_at_site)

lemma frame_total_energy_loop: "snd (total_energy_loop sites acc d) = d"
proof (induction sites arbitrary: acc)
  case Nil
  show ?case by simp
next
  case (Cons i sites)
  obtain r where r: "compute_site_energy i d = (r, d)"
    using frame_compute_site_energy [of i d] by (cases "compute_site_energy i d") simp
  show ?case
    using Cons by (cases r) (simp_all add: r)
qed

lemma frame_compute_total_energy: "snd (compute_total_energy d) = d"
  unfolding compute_total_energy_def
  by (intro frame_bind frame_read frame_return frame_total_energy_loop)

lemma frame_sublattice_loop: "snd (sublattice_loop subs acc d) = d"
  by (induction subs arbitrary: acc) (simp_all add: Let_def split: sum.splits)

lemma frame_sum_spin_vectors_within_sublattices:
  "snd (sum_spin_vectors_within_sublattices d) = d"
  unfolding sum_spin_vectors_within_sublattices_def
  by (intro frame_bind frame_read frame_sublattice_loop)

lemma compute_energy_of_spin_vector_at_site_well_formed:
  assumes wf: "well_formed d" and i: "i < nat (number_sites (lookup_tables d))"
  shows "compute_energy_of_spin_vector_at_site s (int i) d = (Inr (block_energy s d i), d)"
proof -
  obtain s0 s1 s2 where s: "s = (s0, s1, s2)" by (cases s)
  let ?js = "map fst (neighbor_block d i)" and ?ps = "map snd (neighbor_block d i)"
  let ?X = "\<lambda>j. spin_x (state d) ! nat j" and ?Y = "\<lambda>j. spin_y (state d) ! nat j"
  let ?Z = "\<lambda>j. spin_z (state d) ! nat j"
  have len: "length ?js = length ?ps" by simp
  have z: "zip ?js ?ps = neighbor_block d i"
    by (simp add: zip_map_fst_snd)
  have "compute_energy_of_spin_vector_at_site s (int i) d =
      (Inr (sum_list (map2 (*) ?ps (map2 (+) (map2 (+) (map ((*) s0) (map ?X ?js))
              (map ((*) s1) (map ?Y ?js))) (map ((*) s2) (map ?Z ?js))))), d)"
    unfolding compute_energy_of_spin_vector_at_site_def
    by (simp add: bind_apply_Inr [where m = "lookup_neighbor_states (int i)",
            OF lookup_neighbor_states_well_formed [OF wf i]] s np_binop_same del: map_map)
  also have "sum_list (map2 (*) ?ps (map2 (+) (map2 (+) (map ((*) s0) (map ?X ?js))
              (map ((*) s1) (map ?Y ?js))) (map ((*) s2) (map ?Z ?js))))
      = (\<Sum>(j, J) \<leftarrow> zip ?js ?ps. J * (s0 * ?X j + s1 * ?Y j + s2 * ?Z j))"
    by (rule sum_terms [OF len])
  also have "\<dots> = block_energy s d i"
    unfolding z by (simp add: block_energy_def dot_def spin_at_def s)
  finally show ?thesis .
qed

lemma get_site_spin_vector_well_formed:
  assumes wf: "well_formed d" and i: "i < nat (number_sites (lookup_tables d))"
  shows "get_site_spin_vector (int i) d = (Inr (spin_at d i), d)"
  using i well_formed_lengths [OF wf]
  by (simp add: get_site_spin_vector_def np_index_nat spin_at_def)

lemma compute_site_energy_well_formed:
  assumes wf: "well_formed d" and i: "i < nat (number_sites (lookup_tables d))"
  shows "compute_site_energy (int i) d = (Inr (block_energy (spin_at d i) d i), d)"
  unfolding compute_site_energy_def
  by (simp add: bind_def get_site_spin_vector_well_formed [OF wf i]
        compute_energy_of_spin_vector_at_site_well_formed [OF wf i])

lemma total_energy_loop_values:
  assumes "\<forall>i \<in> set sites. fst (compute_site_energy i d) = Inr (e i)"
  shows "total_energy_loop sites acc d = (Inr (acc + (\<Sum>i \<leftarrow> sites. e i)), d)"
  using assms
proof (induction sites arbitrary: acc)
  case Nil
  show ?case by simp
next
  case (Cons i sites)
  have "compute_site_energy i d = (Inr (e i), d)"
    using Cons.prems frame_compute_site_energy [of i d]
    by (cases "compute_site_energy i d") simp
  with Cons show ?case by (simp add: add.assoc)
qed

lemma total_energy_loop_raises_some:
  assumes "\<exists>i \<in> set sites. \<exists>err. fst (compute_site_energy i d) = Inl err"
  shows "\<exists>err. total_energy_loop sites acc d = (Inl err, d)"
  using assms
proof (induction sites arbitrary: acc)
  case Nil
  then show ?case by simp
next
  case (Cons k sites)
  obtain r where r: "compute_site_energy k d = (r, d)"
    using frame_compute_site_energy [of k d] by (cases "compute_site_energy k d") simp
  show ?case
  proof (cases r)
    case (Inl err)
    with r show ?thesis by simp
  next
    case (Inr v)
    with r Cons.prems
    have "\<exists>i \<in> set sites. \<exists>err. fst (compute_site_energy i d) = Inl err"
      by auto
    from Cons.IH [OF this, of "acc + v"] r Inr show ?thesis by simp
  qed
qed

lemma compute_total_energy_values:
  assumes "\<forall>i \<in> set (py_range (number_sites (lookup_tables d))).
             fst (compute_site_energy i d) = Inr (e i)"
  shows "compute_total_energy d =
           (Inr ((\<Sum>i \<leftarrow> py_range (number_sites (lookup_tables d)). e i) / 2), d)"
  unfolding compute_total_energy_def
  by (simp add: bind_def read_def total_energy_loop_values [OF assms])

lemma dot_commute: "dot u v = dot v u"
  by (cases u, cases v) (simp add: dot_def)

lemma bond_energy_reverse: "bond_energy d (reverse_bond b) = bond_energy d b"
  by (cases b) (simp add: bond_energy_def reverse_bond_def dot_commute)

lemma sum_bonds_blocks:
  "(\<Sum>b \<leftarrow> bonds d. f b) =
   (\<Sum>i \<leftarrow> [0..<nat (number_sites (lookup_tables d))].
      \<Sum>(j, J) \<leftarrow> neighbor_block d i. f (int i, j, J))"
proof -
  have "(\<Sum>b \<leftarrow> concat (map (\<lambda>i. map (\<lambda>(j, J). (int i, j, J)) (neighbor_block d i)) ns). f b)
      = (\<Sum>i \<leftarrow> ns. \<Sum>(j, J) \<leftarrow> neighbor_block d i. f (int i, j, J))" for ns
    by (induction ns) (simp_all add: comp_def case_prod_unfold)
  then show ?thesis by (simp add: bonds_def)
qed

lemma sum_site_energies_bonds:
  "(\<Sum>i \<leftarrow> [0..<nat (number_sites (lookup_tables d))]. block_energy (spin_at d i) d i)
   = (\<Sum>b \<leftarrow> bonds d. bond_energy d b)"
  by (simp add: sum_bonds_blocks block_energy_def bond_energy_def)

lemma balanced_sum_reverse:
  fixes f :: "bond \<Rightarrow> real"
  assumes "bonds_balanced d"
  shows "(\<Sum>b \<leftarrow> bonds d. f (reverse_bond b)) = (\<Sum>b \<leftarrow> bonds d. f b)"
proof -
  have "(\<Sum>b \<leftarrow> bonds d. f (reverse_bond b)) = sum_list (map f (map reverse_bond (bonds d)))"
    by (simp add: comp_def)
  also have "\<dots> = sum_mset (image_mset f (mset (map reverse_bond (bonds d))))"
    by (simp only: sum_mset_sum_list [symmetric] mset_map)
  also have "\<dots> = sum_mset (image_mset f (mset (bonds d)))"
    using assms by (simp only: bonds_balanced_def)
  also have "\<dots> = (\<Sum>b \<leftarrow> bonds d. f b)"
    by (simp only: sum_mset_sum_list [symmetric] mset_map)
  finally show ?thesis .
qed

lemma sum_list_split3:
  fixes f :: "bond \<Rightarrow> real"
  shows "(\<Sum>b \<leftarrow> bs. f b) =
     (\<Sum>b \<leftarrow> filter (\<lambda>(i, j, J). i < j) bs. f b)
   + (\<Sum>b \<leftarrow> filter (\<lambda>(i, j, J). j < i) bs. f b)
   + (\<Sum>b \<leftarrow> filter (\<lambda>(i, j, J). i = j) bs. f b)"
  by (induction bs) (auto simp: algebra_simps)

lemma sum_list_filter_if:
  fixes f :: "'a \<Rightarrow> real"
  shows "(\<Sum>b \<leftarrow> filter P bs. f b) = (\<Sum>b \<leftarrow> bs. if P b then f b else 0)"
  by (induction bs) simp_all

lemma balanced_upper_lower:
  assumes bal: "bonds_balanced d"
  shows "(\<Sum>b \<leftarrow> filter (\<lambda>(i, j, J). j < i) (bonds d). bond_energy d b)
       = (\<Sum>b \<leftarrow> proper_bonds d. bond_energy d b)"
proof -
  let ?g = "\<lambda>b. if (case b of (i, j, J) \<Rightarrow> i < j) then bond_energy d b else 0"
  have "(\<Sum>b \<leftarrow> filter (\<lambda>(i, j, J). j < i) (bonds d). bond_energy d b)
      = (\<Sum>b \<leftarrow> bonds d. ?g (reverse_bond b))"
  proof -
    have "(if (case b of (i, j, J) \<Rightarrow> j < i) then bond_energy d b else 0) = ?g (reverse_bond b)"
      for b
      by (cases b) (simp add: reverse_bond_def bond_energy_def dot_commute)
    then show ?thesis
      unfolding sum_list_filter_if by presburger
  qed
  also have "\<dots> = (\<Sum>b \<leftarrow> bonds d. ?g b)"
    by (rule balanced_sum_reverse [OF bal])
  also have "\<dots> = (\<Sum>b \<leftarrow> proper_bonds d. bond_energy d b)"
    by (simp only: sum_list_filter_if proper_bonds_def)
  finally show ?thesis .
qed

lemma balanced_bond_sum:
  assumes "bonds_balanced d"
  shows "(\<Sum>b \<leftarrow> bonds d. bond_energy d b) / 2 =
     (\<Sum>b \<leftarrow> proper_bonds d. bond_energy d b)
   + (\<Sum>b \<leftarrow> self_bonds d. bond_energy d b) / 2"
  by (simp add: sum_list_split3 [of "bond_energy d" "bonds d"] balanced_upper_lower [OF assms]
        proper_bonds_def self_bonds_def)

lemma compute_total_energy_well_formed:
  assumes wf: "well_formed d"
  shows "compute_total_energy d = (Inr ((\<Sum>b \<leftarrow> bonds d. bond_energy d b) / 2), d)"
proof -
  let ?n = "number_sites (lookup_tables d)"
  let ?e = "\<lambda>i. block_energy (spin_at d (nat i)) d (nat i)"
  have "\<forall>i \<in> set (py_range ?n). fst (compute_site_energy i d) = Inr (?e i)"
    by (auto simp: py_range_def compute_site_energy_well_formed [OF wf])
  then have "compute_total_energy d = (Inr ((\<Sum>i \<leftarrow> py_range ?n. ?e i) / 2), d)"
    by (rule compute_total_energy_values)
  also have "(\<Sum>i \<leftarrow> py_range ?n. ?e i) = (\<Sum>i \<leftarrow> [0..<nat ?n]. block_energy (spin_at d i) d i)"
    by (simp add: py_range_def comp_def)
  also have "\<dots> = (\<Sum>b \<leftarrow> bonds d. bond_energy d b)"
    by (rule sum_site_energies_bonds)
  finally show ?thesis .
qed

lemma bind_return_right: "bind m (\<lambda>v. return v) = m"
  by (rule ext) (simp add: bind_def return_def split: prod.splits sum.splits)

lemma take_drop_nth_upt:
  "s + c \<le> length xs \<Longrightarrow> take c (drop s xs) = map (\<lambda>k. xs ! k) [s..<s + c]"
  by (auto intro!: nth_equalityI)

lemma block_energy_index_sum:
  assumes wf: "well_formed d" and i: "i < nat (number_sites (lookup_tables d))"
  shows "block_energy s d i =
     (\<Sum>k = nat (neighbors_lookup_index (lookup_tables d) ! i)
           ..< nat (neighbors_lookup_index (lookup_tables d) ! i
                    + neighbors_count (lookup_tables d) ! i).
        interaction_parameters_table (lookup_tables d) ! k
          * dot s (spin_at d (nat (neighbors_table (lookup_tables d) ! k))))"
proof -
  let ?t = "lookup_tables d"
  let ?s = "nat (neighbors_lookup_index ?t ! i)" and ?c = "nat (neighbors_count ?t ! i)"
  note B = well_formed_block [OF wf i] and L = well_formed_lengths [OF wf]
  have le: "?s + ?c \<le> length (zip (neighbors_table ?t) (interaction_parameters_table ?t))"
    using B L by simp
  have e: "nat (neighbors_lookup_index ?t ! i + neighbors_count ?t ! i) = ?s + ?c"
    using B by (simp add: nat_add_distrib)
  have "neighbor_block d i
      = map (\<lambda>k. zip (neighbors_table ?t) (interaction_parameters_table ?t) ! k) [?s..<?s + ?c]"
    unfolding neighbor_block_def Let_def by (rule take_drop_nth_upt [OF le])
  also have "\<dots> = map (\<lambda>k. (neighbors_table ?t ! k, interaction_parameters_table ?t ! k))
                      [?s..<?s + ?c]"
    using le by (intro map_cong refl) simp
  finally have nb: "neighbor_block d i
      = map (\<lambda>k. (neighbors_table ?t ! k, interaction_parameters_table ?t ! k)) [?s..<?s + ?c]" .
  show ?thesis
    unfolding block_energy_def nb e
    by (simp add: comp_def interv_sum_list_conv_sum_set_nat)
qed

lemma compute_total_energy_raises:
  assumes "\<exists>i \<in> set (py_range (number_sites (lookup_tables d))).
             \<exists>err. fst (compute_site_energy i d) = Inl err"
  shows "\<exists>err. compute_total_energy d = (Inl err, d)"
proof -
  from total_energy_loop_raises_some [OF assms, of 0]
  obtain err where "total_energy_loop (py_range (number_sites (lookup_tables d))) 0 d = (Inl err, d)"
    ..
  then have "compute_total_energy d = (Inl err, d)"
    by (simp add: compute_total_energy_def bind_def read_def)
  then show ?thesis ..
qed

lemma well_formed_pair_data: "well_formed pair_data"
  by (simp add: well_formed_def pair_data_def)

lemma bonds_pair_data: "bonds pair_data = [(0, 1, - 1), (1, 0, - 1)]"
  by (simp add: pair_data_def bonds_def neighbor_block_def upt_conv_Cons)

lemma bonds_self_bond_data: "bonds self_bond_data = [(0, 0, 1)]"
  by (simp add: self_bond_data_def bonds_def neighbor_block_def)

lemma bonds_double_listing_data: "bonds double_listing_data = [(0, 1, 1), (0, 1, 1), (1, 0, 1)]"
  by (simp add: double_listing_data_def bonds_def neighbor_block_def upt_conv_Cons)

lemma bonds_balanced_pair_data: "bonds_balanced pair_data"
  by (simp add: bonds_balanced_def bonds_pair_data reverse_bond_def)

lemma site_energies_pair_data:
  "\<forall>i \<in> set (py_range (number_sites (lookup_tables pair_data))).
     fst (compute_site_energy i pair_data) = Inr (- 1)"
  by (simp add: pair_data_def eval_defs)

lemma site_raises_truncated_state_data:
  "fst (compute_site_energy 0 truncated_state_data) = Inl IndexError"
  by (simp add: truncated_state_data_def eval_defs)

section \<open>Properties of the energy evaluation\<close>

text \<open>
  Claim C10: for every site index and every data, \<open>compute_site_energy\<close> is
  \<open>compute_energy_of_spin_vector_at_site\<close> applied to the vector that
  \<open>get_site_spin_vector\<close> reads at that index: the same value, or the exception of the
  first of the two that raises.
\<close>

theorem compute_site_energy_is_trial_energy_of_current_spin:
  "compute_site_energy site_index d =
     (case get_site_spin_vector site_index d of
        (Inl e, d') \<Rightarrow> (Inl e, d')
      | (Inr site_spin, d') \<Rightarrow> compute_energy_of_spin_vector_at_site site_spin site_index d')"
  by (simp add: compute_site_energy_def bind_return_right) (simp add: bind_def)

text \<open>
  Claim C3: on well-formed data, the energy of a site inside the lattice is the sum, over
  the positions \<open>k\<close> of the half-open block that starts at the site's entry of
  \<open>neighbors_lookup_index\<close> and has as many entries as \<open>neighbors_count\<close> says, of the
  coupling at position \<open>k\<close> of \<open>interaction_parameters_table\<close> times the dot product of the
  site's spin with the spin of the neighbour at position \<open>k\<close> of \<open>neighbors_table\<close>.
\<close>

theorem compute_site_energy_sums_its_block:
  assumes "well_formed d" and "0 \<le> site_index"
    and "site_index < number_sites (lookup_tables d)"
  shows "compute_site_energy site_index d =
     (Inr (\<Sum>k = nat (neighbors_lookup_index (lookup_tables d) ! nat site_index)
                 ..< nat (neighbors_lookup_index (lookup_tables d) ! nat site_index
                          + neighbors_count (lookup_tables d) ! nat site_index).
              interaction_parameters_table (lookup_tables d) ! k
                * dot (spin_at d (nat site_index))
                      (spin_at d (nat (neighbors_table (lookup_tables d) ! k)))), d)"
proof -
  from assms have i: "nat site_index < nat (number_sites (lookup_tables d))" by simp
  from compute_site_energy_well_formed [OF assms(1) i] assms(2)
  have "compute_site_energy site_index d
      = (Inr (block_energy (spin_at d (nat site_index)) d (nat site_index)), d)"
    by simp
  then show ?thesis
    by (simp only: block_energy_index_sum [OF assms(1) i])
qed

theorem compute_site_energy_sums_its_block_witness:
  "well_formed pair_data \<and> compute_site_energy 0 pair_data = (Inr (- 1), pair_data)"
proof -
  have "compute_site_energy 0 pair_data =
     (Inr (\<Sum>k = nat (neighbors_lookup_index (lookup_tables pair_data) ! nat 0)
                 ..< nat (neighbors_lookup_index (lookup_tables pair_data) ! nat 0
                          + neighbors_count (lookup_tables pair_data) ! nat 0).
              interaction_parameters_table (lookup_tables pair_data) ! k
                * dot (spin_at pair_data (nat 0))
                      (spin_at pair_data (nat (neighbors_table (lookup_tables pair_data) ! k)))),
      pair_data)"
    by (rule compute_site_energy_sums_its_block [OF well_formed_pair_data])
       (simp_all add: pair_data_def)
  also have "(\<Sum>k = nat (neighbors_lookup_index (lookup_tables pair_data) ! nat 0)
                 ..< nat (neighbors_lookup_index (lookup_tables pair_data) ! nat 0
                          + neighbors_count (lookup_tables pair_data) ! nat 0).
              interaction_parameters_table (lookup_tables pair_data) ! k
                * dot (spin_at pair_data (nat 0))
                      (spin_at pair_data (nat (neighbors_table (lookup_tables pair_data) ! k))))
      = - 1"
    by (simp add: pair_data_def dot_def spin_at_def)
  finally show ?thesis using well_formed_pair_data by simp
qed

text \<open>
  Claim C1 (amended): for every data, \<open>compute_total_energy\<close> returns half the sum of the
  values of \<open>compute_site_energy\<close> over the sites \<open>0, \<dots>, number_sites - 1\<close> when each of
  them returns, and raises when one of them raises. On well-formed data whose listings
  are symmetric with multiplicities (every listing \<open>(i, j, J)\<close> occurs as often as its
  reverse \<open>(j, i, J)\<close>) the value is the sum of \<open>J * (s\<^sub>i \<cdot> s\<^sub>j)\<close> over the bonds between
  distinct sites, each taken once, plus half of that term for every listing of a site by
  itself.
\<close>

theorem compute_total_energy_halves_site_energies:
  "((\<forall>i \<in> set (py_range (number_sites (lookup_tables d))).
        fst (compute_site_energy i d) = Inr (e i)) \<longrightarrow>
      compute_total_energy d =
        (Inr ((\<Sum>i \<leftarrow> py_range (number_sites (lookup_tables d)). e i) / 2), d))
   \<and> ((\<exists>i \<in> set (py_range (number_sites (lookup_tables d))).
          \<exists>err. fst (compute_site_energy i d) = Inl err) \<longrightarrow>
        (\<exists>err. compute_total_energy d = (Inl err, d)))
   \<and> (well_formed d \<and> bonds_balanced d \<longrightarrow>
        compute_total_energy d =
          (Inr ((\<Sum>b \<leftarrow> proper_bonds d. bond_energy d b)
                + (\<Sum>b \<leftarrow> self_bonds d. bond_energy d b) / 2), d))"
proof (intro conjI impI)
  assume "\<forall>i \<in> set (py_range (number_sites (lookup_tables d))).
            fst (compute_site_energy i d) = Inr (e i)"
  then show "compute_total_energy d =
        (Inr ((\<Sum>i \<leftarrow> py_range (number_sites (lookup_tables d)). e i) / 2), d)"
    by (rule compute_total_energy_values)
next
  assume "\<exists>i \<in> set (py_range (number_sites (lookup_tables d))).
            \<exists>err. fst (compute_site_energy i d) = Inl err"
  then show "\<exists>err. compute_total_energy d = (Inl err, d)"
    by (rule compute_total_energy_raises)
next
  assume "well_formed d \<and> bonds_balanced d"
  then show "compute_total_energy d =
          (Inr ((\<Sum>b \<leftarrow> proper_bonds d. bond_energy d b)
                + (\<Sum>b \<leftarrow> self_bonds d. bond_energy d b) / 2), d)"
    by (simp only: compute_total_energy_well_formed balanced_bond_sum)
qed

theorem compute_total_energy_halves_site_energies_witness:
  "well_formed pair_data \<and> bonds_balanced pair_data
   \<and> compute_total_energy pair_data = (Inr (- 1), pair_data)
   \<and> (\<Sum>b \<leftarrow> proper_bonds pair_data. bond_energy pair_data b)
       + (\<Sum>b \<leftarrow> self_bonds pair_data. bond_energy pair_data b) / 2 = - 1
   \<and> (\<Sum>i \<leftarrow> py_range (number_sites (lookup_tables pair_data)). - 1 :: real) / 2 = - 1
   \<and> fst (compute_site_energy 0 truncated_state_data) = Inl IndexError
   \<and> (\<exists>err. compute_total_energy truncated_state_data = (Inl err, truncated_state_data))"
proof -
  note main = compute_total_energy_halves_site_energies [of pair_data "\<lambda>_. - 1"]
  note fails = compute_total_energy_halves_site_energies [of truncated_state_data "\<lambda>_. 0"]
  have wf: "well_formed pair_data \<and> bonds_balanced pair_data"
    using well_formed_pair_data bonds_balanced_pair_data by simp
  have 1: "compute_total_energy pair_data =
      (Inr ((\<Sum>i \<leftarrow> py_range (number_sites (lookup_tables pair_data)). - 1) / 2), pair_data)"
    by (rule mp [OF conjunct1 [OF main] site_energies_pair_data])
  have 2: "compute_total_energy pair_data =
          (Inr ((\<Sum>b \<leftarrow> proper_bonds pair_data. bond_energy pair_data b)
                + (\<Sum>b \<leftarrow> self_bonds pair_data. bond_energy pair_data b) / 2), pair_data)"
    by (rule mp [OF conjunct2 [OF conjunct2 [OF main]] wf])
  have 3: "(\<Sum>i \<leftarrow> py_range (number_sites (lookup_tables pair_data)). - 1 :: real) / 2 = - 1"
    by (simp add: pair_data_def py_range_def upt_conv_Cons)
  from 1 have 4: "compute_total_energy pair_data = (Inr (- 1), pair_data)"
    unfolding 3 .
  from 2 have "(Inr (- 1) :: error + real, pair_data) =
          (Inr ((\<Sum>b \<leftarrow> proper_bonds pair_data. bond_energy pair_data b)
                + (\<Sum>b \<leftarrow> self_bonds pair_data. bond_energy pair_data b) / 2), pair_data)"
    unfolding 4 .
  then have 5: "(\<Sum>b \<leftarrow> proper_bonds pair_data. bond_energy pair_data b)
       + (\<Sum>b \<leftarrow> self_bonds pair_data. bond_energy pair_data b) / 2 = - 1"
    by simp
  have "0 \<in> set (py_range (number_sites (lookup_tables truncated_state_data)))"
    by (simp add: truncated_state_data_def py_range_def upt_conv_Cons)
  with site_raises_truncated_state_data
  have "\<exists>i \<in> set (py_range (number_sites (lookup_tables truncated_state_data))).
          \<exists>err. fst (compute_site_energy i truncated_state_data) = Inl err"
    by blast
  then have 6: "\<exists>err. compute_total_energy truncated_state_data = (Inl err, truncated_state_data)"
    by (rule mp [OF conjunct1 [OF conjunct2 [OF fails]]])
  from wf 4 5 3 site_raises_truncated_state_data 6 show ?thesis by blast
qed

theorem bond_sum_counterexample:
  "bond_symmetry_invariant self_bond_data
   \<and> compute_total_energy self_bond_data = (Inr (1 / 2), self_bond_data)
   \<and> (\<Sum>b \<leftarrow> undirected_bonds self_bond_data. bond_energy self_bond_data b) = 1
   \<and> bond_symmetry_invariant double_listing_data
   \<and> compute_total_energy double_listing_data = (Inr (3 / 2), double_listing_data)
   \<and> (\<Sum>b \<leftarrow> undirected_bonds double_listing_data. bond_energy double_listing_data b) = 2"
proof -
  have "bond_symmetry_invariant self_bond_data"
    by (simp add: bond_symmetry_invariant_def bonds_self_bond_data reverse_bond_def)
  moreover have "compute_total_energy self_bond_data = (Inr (1 / 2), self_bond_data)"
    by (simp add: self_bond_data_def eval_defs)
  moreover have "(\<Sum>b \<leftarrow> undirected_bonds self_bond_data. bond_energy self_bond_data b) = 1"
    by (simp add: undirected_bonds_def bonds_self_bond_data)
       (simp add: bond_energy_def dot_def spin_at_def self_bond_data_def)
  moreover have "bond_symmetry_invariant double_listing_data"
    by (simp add: bond_symmetry_invariant_def bonds_double_listing_data reverse_bond_def)
  moreover have "compute_total_energy double_listing_data = (Inr (3 / 2), double_listing_data)"
    by (simp add: double_listing_data_def eval_defs)
  moreover have "(\<Sum>b \<leftarrow> undirected_bonds double_listing_data.
                    bond_energy double_listing_data b) = 2"
    by (simp add: undirected_bonds_def bonds_double_listing_data)
       (simp add: bond_energy_def dot_def spin_at_def double_listing_data_def)
  ultimately show ?thesis by simp
qed

end
